theory Spec2Isabelle
  imports Complex_Main
begin

section \<open>Fraud detection scoring service (ml\_service/app.py)\<close>

text \<open>
  A shallow embedding of the request handler \<^verbatim>\<open>predict_fraud\<close> and of
  \<^verbatim>\<open>generate_explanation\<close>. The scaler and the Isolation Forest model are
  unpickled at startup and are not part of the repository's code: they are parameters of the
  embedding, records of functions that may raise.
\<close>

subsection \<open>Floating-point values\<close>

text \<open>
  A Python or numpy float is a finite number, an infinity or NaN. Finite values are exact
  reals here: the rounding error and the overflow of IEEE doubles, and the sign of zero,
  are outside the operations of this subsection, so \<open>np_exp\<close> is the real exponential.
  This is an idealisation of the handler. The one place where a rounding error changes a
  field of the response, the comparison of the score with one half, is evaluated a second
  time with every operation rounded to a double (\<open>normalized_score64\<close> and
  \<open>is_anomaly64\<close> below), and the decision threshold is stated on that evaluation.
  The operations below follow IEEE 754 on the non-finite values, the way numpy's
  \<^verbatim>\<open>float64\<close> scalars compute them (no exception, also when dividing by zero).
\<close>

datatype pyfloat = Finite real | PosInf | NegInf | NaN

fun np_exp :: "pyfloat \<Rightarrow> pyfloat" where
  "np_exp (Finite x) = Finite (exp x)"
| "np_exp PosInf = PosInf"
| "np_exp NegInf = Finite 0"
| "np_exp NaN = NaN"

fun fl_neg :: "pyfloat \<Rightarrow> pyfloat" where
  "fl_neg (Finite x) = Finite (- x)"
| "fl_neg PosInf = NegInf"
| "fl_neg NegInf = PosInf"
| "fl_neg NaN = NaN"

fun fl_abs :: "pyfloat \<Rightarrow> pyfloat" where
  "fl_abs (Finite x) = Finite \<bar>x\<bar>"
| "fl_abs PosInf = PosInf"
| "fl_abs NegInf = PosInf"
| "fl_abs NaN = NaN"

fun fl_add :: "pyfloat \<Rightarrow> pyfloat \<Rightarrow> pyfloat" where
  "fl_add (Finite a) (Finite b) = Finite (a + b)"
| "fl_add NaN b = NaN"
| "fl_add a NaN = NaN"
| "fl_add PosInf NegInf = NaN"
| "fl_add NegInf PosInf = NaN"
| "fl_add PosInf b = PosInf"
| "fl_add a PosInf = PosInf"
| "fl_add NegInf b = NegInf"
| "fl_add a NegInf = NegInf"

definition fl_sub :: "pyfloat \<Rightarrow> pyfloat \<Rightarrow> pyfloat" where
  "fl_sub a b = fl_add a (fl_neg b)"

text \<open>The sign of a value, for the products and quotients with an infinity.\<close>

fun fl_sgn :: "pyfloat \<Rightarrow> int" where
  "fl_sgn (Finite x) = (if x < 0 then - 1 else if x = 0 then 0 else 1)"
| "fl_sgn PosInf = 1"
| "fl_sgn NegInf = - 1"
| "fl_sgn NaN = 0"

definition inf_of_sign :: "int \<Rightarrow> pyfloat" where
  "inf_of_sign s = (if s = 0 then NaN else if 0 < s then PosInf else NegInf)"

fun fl_mul :: "pyfloat \<Rightarrow> pyfloat \<Rightarrow> pyfloat" where
  "fl_mul (Finite a) (Finite b) = Finite (a * b)"
| "fl_mul NaN b = NaN"
| "fl_mul a NaN = NaN"
| "fl_mul a b = inf_of_sign (fl_sgn a * fl_sgn b)"

fun fl_div :: "pyfloat \<Rightarrow> pyfloat \<Rightarrow> pyfloat" where
  "fl_div (Finite a) (Finite b) =
     (if b = 0 then inf_of_sign (fl_sgn (Finite a)) else Finite (a / b))"
| "fl_div NaN b = NaN"
| "fl_div a NaN = NaN"
| "fl_div (Finite a) b = Finite 0"
| "fl_div a (Finite b) = inf_of_sign (fl_sgn a * (if b < 0 then - 1 else 1))"
| "fl_div a b = NaN"

text \<open>Comparisons: every comparison with NaN is false.\<close>

fun fl_less :: "pyfloat \<Rightarrow> pyfloat \<Rightarrow> bool" where
  "fl_less (Finite a) (Finite b) = (a < b)"
| "fl_less NaN b = False"
| "fl_less a NaN = False"
| "fl_less NegInf b = (b \<noteq> NegInf)"
| "fl_less a PosInf = (a \<noteq> PosInf)"
| "fl_less a b = False"

definition fl_greater :: "pyfloat \<Rightarrow> pyfloat \<Rightarrow> bool" where
  "fl_greater a b = fl_less b a"

definition fl_le :: "pyfloat \<Rightarrow> pyfloat \<Rightarrow> bool" where
  "fl_le a b = (a \<noteq> NaN \<and> b \<noteq> NaN \<and> \<not> fl_less b a)"

definition fl_ge :: "pyfloat \<Rightarrow> pyfloat \<Rightarrow> bool" where
  "fl_ge a b = fl_le b a"

text \<open>
  Python's builtins \<^verbatim>\<open>min(a, b)\<close> and \<^verbatim>\<open>max(a, b)\<close> keep the first
  argument unless the second is strictly smaller (larger).
\<close>

definition py_min :: "pyfloat \<Rightarrow> pyfloat \<Rightarrow> pyfloat" where
  "py_min a b = (if fl_less b a then b else a)"

definition py_max :: "pyfloat \<Rightarrow> pyfloat \<Rightarrow> pyfloat" where
  "py_max a b = (if fl_greater b a then b else a)"

text \<open>Rounding to the nearest integer, ties to the even neighbour.\<close>

definition rint :: "real \<Rightarrow> int" where
  "rint x = (let f = \<lfloor>x\<rfloor>; d = x - of_int f in
     if d < 1 / 2 then f else if 1 / 2 < d then f + 1 else if even f then f else f + 1)"

text \<open>\<^verbatim>\<open>round(x, ndigits)\<close> of a float: scale, round half to even, scale back.\<close>

fun py_round :: "pyfloat \<Rightarrow> nat \<Rightarrow> pyfloat" where
  "py_round (Finite x) ndigits = Finite (of_int (rint (x * 10 ^ ndigits)) / 10 ^ ndigits)"
| "py_round PosInf ndigits = PosInf"
| "py_round NegInf ndigits = NegInf"
| "py_round NaN ndigits = NaN"

subsection \<open>String formatting\<close>

definition digit_char :: "nat \<Rightarrow> char" where
  "digit_char d = ''0123456789'' ! d"

fun str_nat :: "nat \<Rightarrow> string" where
  "str_nat n = (if n < 10 then [digit_char n] else str_nat (n div 10) @ [digit_char (n mod 10)])"

declare str_nat.simps [simp del]

text \<open>\<^verbatim>\<open>str(i)\<close> of an int, as an f-string field \<^verbatim>\<open>{i}\<close> renders it.\<close>

definition str_int :: "int \<Rightarrow> string" where
  "str_int i = (if i < 0 then CHR ''-'' # str_nat (nat (- i)) else str_nat (nat i))"

text \<open>The \<^verbatim>\<open>,\<close> format option: a comma before every group of three digits.\<close>

fun group_thousands :: "string \<Rightarrow> string" where
  "group_thousands ds = (if length ds \<le> 3 then ds
     else group_thousands (take (length ds - 3) ds) @ '','' @ drop (length ds - 3) ds)"

declare group_thousands.simps [simp del]

text \<open>
  The format specifications \<^verbatim>\<open>.2f\<close> (\<open>grouped = False\<close>) and \<^verbatim>\<open>,.2f\<close>
  (\<open>grouped = True\<close>): the value rounded half to even to two decimals, a sign for a
  negative value, the integer digits, a point and exactly two decimals; the non-finite
  values print as \<^verbatim>\<open>inf\<close>, \<^verbatim>\<open>-inf\<close> and \<^verbatim>\<open>nan\<close>.
\<close>

fun format_2f :: "bool \<Rightarrow> pyfloat \<Rightarrow> string" where
  "format_2f grouped (Finite x) =
     (let n = nat (rint (\<bar>x\<bar> * 100));
          ip = str_nat (n div 100)
      in (if x < 0 then ''-'' else '''')
         @ (if grouped then group_thousands ip else ip)
         @ ''.'' @ [digit_char (n mod 100 div 10), digit_char (n mod 10)])"
| "format_2f grouped PosInf = ''inf''"
| "format_2f grouped NegInf = ''-inf''"
| "format_2f grouped NaN = ''nan''"

text \<open>\<^verbatim>\<open>sep.join(xs)\<close>\<close>

fun join :: "string \<Rightarrow> string list \<Rightarrow> string" where
  "join sep [] = []"
| "join sep [x] = x"
| "join sep (x # y # ys) = x @ sep @ join sep (y # ys)"

subsection \<open>Request and response models\<close>

text \<open>
  A validated \<^verbatim>\<open>TransactionRequest\<close>. Every field but \<^verbatim>\<open>amount\<close> is declared
  \<^verbatim>\<open>Optional\<close>, so it can hold \<^verbatim>\<open>None\<close>.
\<close>

record TransactionRequest =
  amount :: pyfloat
  accountAgeDays :: "int option"
  confidence :: "pyfloat option"
  totalCost :: "pyfloat option"
  newAccount :: "bool option"
  internationalTransfer :: "bool option"
  unusualHour :: "bool option"
  riskFlagCount :: "int option"

record FraudPredictionResponse =
  anomalyScore :: pyfloat
  isAnomaly :: bool
  model_confidence :: pyfloat
  explanation :: string

text \<open>
  The response's field \<^verbatim>\<open>confidence\<close> is \<open>model_confidence\<close> here, since the request
  has a field of the same name.
\<close>

text \<open>
  A field of the request body as the client sent it: left out, an explicit
  \<^verbatim>\<open>null\<close>, or a value of the field's type (the coercion of JSON values to the
  declared types is the framework's and is not modelled).
\<close>

datatype 'a field = Absent | Null | Given 'a

text \<open>
  What a field declared \<^verbatim>\<open>Optional[T] = Field(default, ...)\<close> holds after
  validation: the default when the key is absent, \<^verbatim>\<open>None\<close> for \<^verbatim>\<open>null\<close>.
\<close>

fun optional_field :: "'a option \<Rightarrow> 'a field \<Rightarrow> 'a option" where
  "optional_field dflt Absent = dflt"
| "optional_field dflt Null = None"
| "optional_field dflt (Given v) = Some v"

text \<open>
  The declared constraints \<^verbatim>\<open>ge=0\<close> and \<^verbatim>\<open>le=1\<close>, checked on a value that is
  present: greater (less) than or equal, under the float comparison.
\<close>

definition ge0_ok :: "pyfloat option \<Rightarrow> bool" where
  "ge0_ok v = (case v of None \<Rightarrow> True | Some x \<Rightarrow> fl_ge x (Finite 0))"

definition le1_ok :: "pyfloat option \<Rightarrow> bool" where
  "le1_ok v = (case v of None \<Rightarrow> True | Some x \<Rightarrow> fl_le x (Finite 1))"

definition int_ge0_ok :: "int option \<Rightarrow> bool" where
  "int_ge0_ok v = (case v of None \<Rightarrow> True | Some n \<Rightarrow> 0 \<le> n)"

text \<open>
  The names of the optional fields whose value breaks a declared constraint, in
  declaration order.
\<close>

definition constraint_errors :: "pyfloat option \<Rightarrow> pyfloat option \<Rightarrow> int option \<Rightarrow> string list" where
  "constraint_errors v_confidence v_totalCost v_riskFlagCount =
     (if ge0_ok v_confidence \<and> le1_ok v_confidence then [] else [''confidence''])
     @ (if ge0_ok v_totalCost then [] else [''totalCost''])
     @ (if int_ge0_ok v_riskFlagCount then [] else [''riskFlagCount''])"

text \<open>
  Validation of a request body against the class \<^verbatim>\<open>TransactionRequest\<close>
  (lines 101 to 108): the names of the fields that fail, in declaration order, or the
  validated object. \<^verbatim>\<open>amount\<close> is required (\<^verbatim>\<open>Field(...)\<close>) and is not
  \<^verbatim>\<open>Optional\<close>.
\<close>

definition TransactionRequest_validate ::
  "pyfloat field \<Rightarrow> int field \<Rightarrow> pyfloat field \<Rightarrow> pyfloat field \<Rightarrow> bool field \<Rightarrow>
   bool field \<Rightarrow> bool field \<Rightarrow> int field \<Rightarrow> string list + TransactionRequest" where
  "TransactionRequest_validate f_amount f_accountAgeDays f_confidence f_totalCost f_newAccount
       f_internationalTransfer f_unusualHour f_riskFlagCount =
     (let v_confidence = optional_field None f_confidence;
          v_totalCost = optional_field (Some (Finite 0)) f_totalCost;
          v_riskFlagCount = optional_field (Some 0) f_riskFlagCount;
          errors = constraint_errors v_confidence v_totalCost v_riskFlagCount
      in case f_amount of
           Given a \<Rightarrow>
             if fl_ge a (Finite 0) \<and> errors = [] then
               Inr \<lparr>amount = a,
                    accountAgeDays = optional_field None f_accountAgeDays,
                    confidence = v_confidence,
                    totalCost = v_totalCost,
                    newAccount = optional_field (Some False) f_newAccount,
                    internationalTransfer = optional_field (Some False) f_internationalTransfer,
                    unusualHour = optional_field (Some False) f_unusualHour,
                    riskFlagCount = v_riskFlagCount\<rparr>
             else Inl ((if fl_ge a (Finite 0) then [] else [''amount'']) @ errors)
         | _ \<Rightarrow> Inl (''amount'' # errors))"

subsection \<open>The explanation generator\<close>

text \<open>The message of the \<^verbatim>\<open>TypeError\<close> that \<^verbatim>\<open>None > 2\<close> raises.\<close>

definition none_gt_int_TypeError :: string where
  "none_gt_int_TypeError =
     [CHR 0x27] @ ''>'' @ [CHR 0x27] @ '' not supported between instances of ''
     @ [CHR 0x27] @ ''NoneType'' @ [CHR 0x27] @ '' and '' @ [CHR 0x27] @ ''int'' @ [CHR 0x27]"

text \<open>Truth value of an \<^verbatim>\<open>Optional[bool]\<close> in a condition: \<^verbatim>\<open>None\<close> is false.\<close>

definition truthy :: "bool option \<Rightarrow> bool" where
  "truthy b = (b = Some True)"

text \<open>
  The list \<^verbatim>\<open>risk_factors\<close> after the five tests of lines 243 to 252. The last test
  compares \<^verbatim>\<open>transaction.riskFlagCount\<close> with 2, which raises when the field holds
  \<^verbatim>\<open>None\<close>.
\<close>

definition risk_factors :: "TransactionRequest \<Rightarrow> string + string list" where
  "risk_factors transaction =
     (let rf0 = [];
          rf1 = (if fl_greater (amount transaction) (Finite 5000)
                 then rf0 @ [''high amount ($'' @ format_2f True (amount transaction) @ '')'']
                 else rf0);
          rf2 = (if truthy (newAccount transaction) then rf1 @ [''new account''] else rf1);
          rf3 = (if truthy (internationalTransfer transaction)
                 then rf2 @ [''international transfer''] else rf2);
          rf4 = (if truthy (unusualHour transaction) then rf3 @ [''unusual hour''] else rf3)
      in case riskFlagCount transaction of
           None \<Rightarrow> Inl none_gt_int_TypeError
         | Some n \<Rightarrow>
             Inr (if 2 < n then rf4 @ [''multiple risk flags ('' @ str_int n @ '')''] else rf4))"

definition generate_explanation :: "TransactionRequest \<Rightarrow> pyfloat \<Rightarrow> bool \<Rightarrow> string + string" where
  "generate_explanation transaction score is_anomaly =
     (case risk_factors transaction of
        Inl e \<Rightarrow> Inl e
      | Inr rf \<Rightarrow>
          Inr (if is_anomaly then
                 (if rf \<noteq> [] then
                    ''Anomaly detected (score: '' @ format_2f False score
                      @ ''). Risk factors: '' @ join '', '' rf
                  else
                    ''Anomaly detected (score: '' @ format_2f False score
                      @ ''). Transaction pattern deviates significantly from normal behavior.'')
               else
                 ''Normal transaction (score: '' @ format_2f False score
                   @ ''). No significant anomalies detected.''))"

subsection \<open>The scoring capability\<close>

text \<open>
  The globals \<^verbatim>\<open>scaler\<close> and \<^verbatim>\<open>model\<close>: objects loaded from pickle files, of
  which the handler calls four methods. Each call returns a value or raises an exception,
  of which the handler uses the message \<^verbatim>\<open>str(e)\<close>. The methods take the one-row
  matrix as the list of its row, and the scoring methods return the entry \<^verbatim>\<open>[0]\<close> of
  their result.
\<close>

record Scaler =
  transform :: "pyfloat list \<Rightarrow> string + pyfloat list"

record Model =
  predict :: "pyfloat list \<Rightarrow> string + int"
  score_samples :: "pyfloat list \<Rightarrow> string + pyfloat"
  decision_function :: "pyfloat list \<Rightarrow> string + pyfloat"

text \<open>The calls made to the capability, in the order they were made.\<close>

datatype capability_call =
  Transform "pyfloat list"
| Predict "pyfloat list"
| ScoreSamples "pyfloat list"
| DecisionFunction "pyfloat list"

type_synonym 'a traced = "capability_call list \<times> (string + 'a)"

definition call :: "capability_call \<Rightarrow> string + 'a \<Rightarrow> 'a traced" where
  "call c r = ([c], r)"

definition local_step :: "string + 'a \<Rightarrow> 'a traced" where
  "local_step r = ([], r)"

text \<open>Sequencing inside the \<^verbatim>\<open>try\<close> block: an exception skips the rest.\<close>

definition and_then :: "'a traced \<Rightarrow> ('a \<Rightarrow> 'b traced) \<Rightarrow> 'b traced" where
  "and_then m f =
     (case m of
        (tr, Inl e) \<Rightarrow> (tr, Inl e)
      | (tr, Inr x) \<Rightarrow> (case f x of (tr', r) \<Rightarrow> (tr @ tr', r)))"

subsection \<open>The prediction pipeline\<close>

text \<open>\<^verbatim>\<open>x or 0\<close> and \<^verbatim>\<open>x or 0.0\<close>: the value unless it is \<^verbatim>\<open>None\<close> or zero.\<close>

definition or_int :: "int option \<Rightarrow> int \<Rightarrow> int" where
  "or_int x d = (case x of None \<Rightarrow> d | Some n \<Rightarrow> if n \<noteq> 0 then n else d)"

definition or_float :: "pyfloat option \<Rightarrow> pyfloat \<Rightarrow> pyfloat" where
  "or_float x d = (case x of None \<Rightarrow> d | Some v \<Rightarrow> if v \<noteq> Finite 0 then v else d)"

text \<open>Step 1 (lines 169 to 178): the row of the array \<^verbatim>\<open>features\<close>.\<close>

definition features :: "TransactionRequest \<Rightarrow> pyfloat list" where
  "features transaction =
     [amount transaction,
      Finite (of_int (or_int (accountAgeDays transaction) 0)),
      or_float (confidence transaction) (Finite 0),
      or_float (totalCost transaction) (Finite 0),
      Finite (if truthy (newAccount transaction) then 1 else 0),
      Finite (if truthy (internationalTransfer transaction) then 1 else 0),
      Finite (if truthy (unusualHour transaction) then 1 else 0),
      Finite (of_int (or_int (riskFlagCount transaction) 0))]"

text \<open>
  Lines 194 to 201: the score derived from the label and the raw score, which line 210
  overwrites.
\<close>

definition label_score :: "int \<Rightarrow> pyfloat \<Rightarrow> pyfloat" where
  "label_score prediction raw_score =
     (if prediction = - 1 then
        py_max (Finite 0.5)
          (py_min (Finite 1) (fl_div (Finite 1) (fl_add (Finite 1) (np_exp raw_score))))
      else
        py_max (Finite 0)
          (py_min (Finite 0.5)
             (fl_div (Finite 1) (fl_add (Finite 1) (np_exp (fl_neg raw_score))))))"

text \<open>Line 207: \<^verbatim>\<open>normalized_score = 1 / (1 + np.exp(decision_score))\<close>.\<close>

definition normalized_score :: "pyfloat \<Rightarrow> pyfloat" where
  "normalized_score decision_score =
     fl_div (Finite 1) (fl_add (Finite 1) (np_exp decision_score))"

text \<open>Line 219: \<^verbatim>\<open>confidence = abs(anomaly_score - 0.5) * 2\<close>.\<close>

definition score_confidence :: "pyfloat \<Rightarrow> pyfloat" where
  "score_confidence anomaly_score =
     fl_mul (fl_abs (fl_sub anomaly_score (Finite 0.5))) (Finite 2)"

text \<open>The body of the \<^verbatim>\<open>try\<close> block (lines 168 to 226).\<close>

definition predict_fraud_try :: "Model \<Rightarrow> Scaler \<Rightarrow> TransactionRequest \<Rightarrow>
    FraudPredictionResponse traced" where
  "predict_fraud_try model scaler transaction =
     (let feats = features transaction in
      and_then (call (Transform feats) (transform scaler feats)) (\<lambda>features_scaled.
      and_then (call (Predict features_scaled) (predict model features_scaled)) (\<lambda>prediction.
      and_then (call (ScoreSamples features_scaled) (score_samples model features_scaled))
        (\<lambda>raw_score.
      let anomaly_score = label_score prediction raw_score in
      and_then (call (DecisionFunction features_scaled)
                  (decision_function model features_scaled)) (\<lambda>decision_score.
      let anomaly_score = normalized_score decision_score;
          is_anomaly = fl_greater anomaly_score (Finite 0.5)
      in
      and_then (local_step (generate_explanation transaction anomaly_score is_anomaly))
        (\<lambda>explanation_text.
      local_step (Inr \<lparr>anomalyScore = py_round anomaly_score 4,
                       isAnomaly = is_anomaly,
                       model_confidence = py_round (score_confidence anomaly_score) 4,
                       explanation = explanation_text\<rparr>)))))))"

datatype HTTPException = HTTPException (status_code: int) (detail: string)

text \<open>
  The handler of \<^verbatim>\<open>POST /predict\<close>, given the two globals and the validated request:
  the calls it made to the capability, and the exception it raised or the response it
  returned.
\<close>

definition predict_fraud :: "Model option \<Rightarrow> Scaler option \<Rightarrow> TransactionRequest \<Rightarrow>
    capability_call list \<times> (HTTPException + FraudPredictionResponse)" where
  "predict_fraud model scaler transaction =
     (case (model, scaler) of
        (Some m, Some s) \<Rightarrow>
          (case predict_fraud_try m s transaction of
             (tr, Inl e) \<Rightarrow> (tr, Inl (HTTPException 500 (''Prediction failed: '' @ e)))
           | (tr, Inr response) \<Rightarrow> (tr, Inr response))
      | _ \<Rightarrow> ([], Inl (HTTPException 503 ''Model not loaded'')))"

subsection \<open>The pipeline without the discarded score paths\<close>

text \<open>
  The pipeline the specification keeps: the handler without lines 194 to 201, where the
  score is derived from the label and the raw score and then overwritten. The calls of
  lines 185 and 188 stay; only the computation on their results is left out. It is what
  \<open>predict_fraud\<close> is compared with.
\<close>

definition simplified_try :: "Model \<Rightarrow> Scaler \<Rightarrow> TransactionRequest \<Rightarrow>
    FraudPredictionResponse traced" where
  "simplified_try model scaler transaction =
     (let feats = features transaction in
      and_then (call (Transform feats) (transform scaler feats)) (\<lambda>features_scaled.
      and_then (call (Predict features_scaled) (predict model features_scaled)) (\<lambda>prediction.
      and_then (call (ScoreSamples features_scaled) (score_samples model features_scaled))
        (\<lambda>raw_score.
      and_then (call (DecisionFunction features_scaled)
                  (decision_function model features_scaled)) (\<lambda>decision_score.
      let anomaly_score = normalized_score decision_score;
          is_anomaly = fl_greater anomaly_score (Finite 0.5)
      in
      and_then (local_step (generate_explanation transaction anomaly_score is_anomaly))
        (\<lambda>explanation_text.
      local_step (Inr \<lparr>anomalyScore = py_round anomaly_score 4,
                       isAnomaly = is_anomaly,
                       model_confidence = py_round (score_confidence anomaly_score) 4,
                       explanation = explanation_text\<rparr>)))))))"

definition predict_fraud_simplified :: "Model option \<Rightarrow> Scaler option \<Rightarrow> TransactionRequest \<Rightarrow>
    capability_call list \<times> (HTTPException + FraudPredictionResponse)" where
  "predict_fraud_simplified model scaler transaction =
     (case (model, scaler) of
        (Some m, Some s) \<Rightarrow>
          (case simplified_try m s transaction of
             (tr, Inl e) \<Rightarrow> (tr, Inl (HTTPException 500 (''Prediction failed: '' @ e)))
           | (tr, Inr response) \<Rightarrow> (tr, Inr response))
      | _ \<Rightarrow> ([], Inl (HTTPException 503 ''Model not loaded'')))"

subsection \<open>The score and the decision in double precision\<close>





subsection \<open>Example capabilities and requests\<close>

text \<open>A scaler that returns the features unchanged.\<close>

definition identity_scaler :: Scaler where
  "identity_scaler = \<lparr>transform = (\<lambda>x. Inr x)\<rparr>"

text \<open>A model that answers every row with the same label, raw score and decision score.\<close>

definition constant_model :: "int \<Rightarrow> pyfloat \<Rightarrow> pyfloat \<Rightarrow> Model" where
  "constant_model label raw d =
     \<lparr>predict = (\<lambda>x. Inr label), score_samples = (\<lambda>x. Inr raw),
      decision_function = (\<lambda>x. Inr d)\<rparr>"

text \<open>
  A model whose label passes through \<open>f\<close> and whose raw score passes through \<open>g\<close>
  before they are returned; a call that raises still raises.
\<close>

definition map_label_results :: "(int \<Rightarrow> int) \<Rightarrow> (pyfloat \<Rightarrow> pyfloat) \<Rightarrow> Model \<Rightarrow> Model" where
  "map_label_results f g m =
     m\<lparr>predict := (\<lambda>x. map_sum id f (predict m x)),
       score_samples := (\<lambda>x. map_sum id g (score_samples m x))\<rparr>"

text \<open>The validated request of a body that holds only \<^verbatim>\<open>amount\<close>.\<close>

definition amount_only :: "pyfloat \<Rightarrow> TransactionRequest" where
  "amount_only a =
     \<lparr>amount = a, accountAgeDays = None, confidence = None, totalCost = Some (Finite 0),
      newAccount = Some False, internationalTransfer = Some False, unusualHour = Some False,
      riskFlagCount = Some 0\<rparr>"

text \<open>Scenario B of the specification: amount 7500.50 on a new account.\<close>

definition scenario_B :: TransactionRequest where
  "scenario_B = (amount_only (Finite 7500.5))\<lparr>newAccount := Some True\<rparr>"

text \<open>The validated request of the body \<^verbatim>\<open>{"amount": 100, "riskFlagCount": null}\<close>.\<close>

definition null_risk_request :: TransactionRequest where
  "null_risk_request = (amount_only (Finite 100))\<lparr>riskFlagCount := None\<rparr>"

text \<open>Whether a string starts with a given prefix.\<close>

definition starts_with :: "string \<Rightarrow> string \<Rightarrow> bool" where
  "starts_with p c = (take (length p) c = p)"

section \<open>Properties\<close>

subsection \<open>Rounding and the logistic squash\<close>

lemma rint_of_int: "rint (of_int k) = k"
  by (simp add: rint_def)

lemma rint_numeral [simp]: "rint (numeral k) = numeral k"
  using rint_of_int [of "numeral k"] by simp

lemma rint_zero [simp]: "rint 0 = 0"
  using rint_of_int [of 0] by simp

lemma rint_one [simp]: "rint 1 = 1"
  using rint_of_int [of 1] by simp





lemma normalized_score_Finite:
  "normalized_score (Finite r) = Finite (1 / (1 + exp r))"
proof -
  have "1 + exp r \<noteq> 0" using exp_gt_zero [of r] by linarith
  then show ?thesis by (simp add: normalized_score_def)
qed

lemma squash_bounds: "0 < 1 / (1 + exp (r::real)) \<and> 1 / (1 + exp r) < 1"
proof -
  have pos: "0 < 1 + exp r" and gt: "1 < 1 + exp r"
    using exp_gt_zero [of r] by linarith+
  have "1 / (1 + exp r) < 1" using divide_less_eq_1_pos [OF pos, of 1] gt by blast
  moreover have "0 < 1 / (1 + exp r)" using pos by simp
  ultimately show ?thesis by simp
qed





subsection \<open>The pipeline on a successful run\<close>

lemma predict_fraud_try_success:
  assumes "transform s (features t) = Inr fs"
    and "predict m fs = Inr p"
    and "score_samples m fs = Inr raw"
    and "decision_function m fs = Inr d"
    and "generate_explanation t (normalized_score d)
           (fl_greater (normalized_score d) (Finite 0.5)) = Inr ex"
  shows "predict_fraud_try m s t =
     ([Transform (features t), Predict fs, ScoreSamples fs, DecisionFunction fs],
      Inr \<lparr>anomalyScore = py_round (normalized_score d) 4,
           isAnomaly = fl_greater (normalized_score d) (Finite 0.5),
           model_confidence = py_round (score_confidence (normalized_score d)) 4,
           explanation = ex\<rparr>)"
  using assms
  by (simp add: predict_fraud_try_def Let_def and_then_def call_def local_step_def)

lemma generate_explanation_total:
  "riskFlagCount t = Some n \<Longrightarrow> \<exists>ex. generate_explanation t sc a = Inr ex"
  by (simp add: generate_explanation_def risk_factors_def Let_def)

lemma predict_fraud_success:
  assumes "transform s (features t) = Inr fs"
    and "predict m fs = Inr p"
    and "score_samples m fs = Inr raw"
    and "decision_function m fs = Inr d"
    and "generate_explanation t (normalized_score d)
           (fl_greater (normalized_score d) (Finite 0.5)) = Inr ex"
  shows "predict_fraud (Some m) (Some s) t =
     ([Transform (features t), Predict fs, ScoreSamples fs, DecisionFunction fs],
      Inr \<lparr>anomalyScore = py_round (normalized_score d) 4,
           isAnomaly = fl_greater (normalized_score d) (Finite 0.5),
           model_confidence = py_round (score_confidence (normalized_score d)) 4,
           explanation = ex\<rparr>)"
  by (simp add: predict_fraud_def predict_fraud_try_success [OF assms])

lemma rint_eq_lower: "of_int k \<le> x \<Longrightarrow> x < of_int k + 1 / 2 \<Longrightarrow> rint x = k"
proof -
  assume a: "of_int k \<le> x" and b: "x < of_int k + 1 / 2"
  have "\<lfloor>x\<rfloor> = k" using a b by (intro floor_unique) auto
  then show ?thesis using b by (simp add: rint_def Let_def)
qed



lemma normalized_score_zero: "normalized_score (Finite 0) = Finite (1 / 2)"
  by (simp add: normalized_score_Finite)




lemma features_amount_only:
  "features (amount_only a) =
     [a, Finite 0, Finite 0, Finite 0, Finite 0, Finite 0, Finite 0, Finite 0]"
  by (simp add: features_def amount_only_def or_int_def or_float_def truthy_def)


subsection \<open>Score normalisation\<close>




subsection \<open>The decision threshold\<close>




































subsection \<open>Confidence\<close>

lemma score_confidence_Finite: "score_confidence (Finite x) = Finite (2 * \<bar>x - 1 / 2\<bar>)"
  by (simp add: score_confidence_def fl_sub_def)






subsection \<open>Capability not loaded\<close>

text \<open>
  Claim C7. When the model or the scaler is not loaded, the handler raises the HTTP
  exception 503 for every request and has made no call to the capability: no transform and
  no scoring was attempted.
\<close>

theorem unavailable_capability_rejected:
  "model = None \<or> scaler = None \<Longrightarrow>
   predict_fraud model scaler t = ([], Inl (HTTPException 503 ''Model not loaded''))"
  by (auto simp: predict_fraud_def split: option.splits)

theorem unavailable_capability_rejected_witness:
  "(None :: Model option) = None
   \<and> predict_fraud None (Some identity_scaler) scenario_B
       = ([], Inl (HTTPException 503 ''Model not loaded''))
   \<and> predict_fraud (Some (constant_model 1 (Finite 0) (Finite 0))) None scenario_B
       = ([], Inl (HTTPException 503 ''Model not loaded''))"
proof -
  have a: "predict_fraud None (Some identity_scaler) scenario_B
       = ([], Inl (HTTPException 503 ''Model not loaded''))"
    by (rule unavailable_capability_rejected) simp
  have b: "predict_fraud (Some (constant_model 1 (Finite 0) (Finite 0))) None scenario_B
       = ([], Inl (HTTPException 503 ''Model not loaded''))"
    by (rule unavailable_capability_rejected) simp
  show ?thesis using a b by simp
qed


subsection \<open>Feature vector and defaults\<close>

lemma validate_Inr_fields:
  assumes "TransactionRequest_validate f_amount f_age f_conf f_cost f_new f_intl f_hour f_risk = Inr t"
  shows "f_amount = Given (amount t)
       \<and> accountAgeDays t = optional_field None f_age
       \<and> confidence t = optional_field None f_conf
       \<and> totalCost t = optional_field (Some (Finite 0)) f_cost
       \<and> newAccount t = optional_field (Some False) f_new
       \<and> internationalTransfer t = optional_field (Some False) f_intl
       \<and> unusualHour t = optional_field (Some False) f_hour
       \<and> riskFlagCount t = optional_field (Some 0) f_risk"
  using assms
  by (cases f_amount) (auto simp: TransactionRequest_validate_def Let_def split: if_splits)

lemma first_call_is_transform:
  "\<exists>rest. fst (predict_fraud (Some m) (Some s) t) = Transform (features t) # rest"
  by (cases "transform s (features t)")
     (auto simp: predict_fraud_def predict_fraud_try_def Let_def and_then_def call_def
       split: prod.splits sum.splits)

lemma validate_amount_only:
  "TransactionRequest_validate (Given (Finite 100)) Absent Absent Absent Absent Absent Absent Absent
     = Inr (amount_only (Finite 100))"
  by (simp add: TransactionRequest_validate_def Let_def amount_only_def fl_ge_def fl_le_def
      ge0_ok_def le1_ok_def int_ge0_ok_def constraint_errors_def)


text \<open>
  Claim C8. For every request body that passes validation, the row handed to the scaler has
  eight entries in the order amount, accountAgeDays, confidence, totalCost, newAccount,
  internationalTransfer, unusualHour, riskFlagCount. An optional field that is absent
  contributes 0 (the encoding of 0, 0.0 and false); a field that is given contributes its
  value, a flag as 1 or 0. The first call of a loaded capability is the transform of this
  row.
\<close>

theorem absent_fields_take_defaults:
  assumes "TransactionRequest_validate f_amount f_age f_conf f_cost f_new f_intl f_hour f_risk = Inr t"
  shows "length (features t) = 8
       \<and> f_amount = Given (features t ! 0)
       \<and> (f_age = Absent \<longrightarrow> features t ! 1 = Finite 0)
       \<and> (\<forall>v. f_age = Given v \<longrightarrow> features t ! 1 = Finite (of_int v))
       \<and> (f_conf = Absent \<longrightarrow> features t ! 2 = Finite 0)
       \<and> (\<forall>v. f_conf = Given v \<longrightarrow> features t ! 2 = v)
       \<and> (f_cost = Absent \<longrightarrow> features t ! 3 = Finite 0)
       \<and> (\<forall>v. f_cost = Given v \<longrightarrow> features t ! 3 = v)
       \<and> (f_new = Absent \<longrightarrow> features t ! 4 = Finite 0)
       \<and> (\<forall>b. f_new = Given b \<longrightarrow> features t ! 4 = Finite (if b then 1 else 0))
       \<and> (f_intl = Absent \<longrightarrow> features t ! 5 = Finite 0)
       \<and> (\<forall>b. f_intl = Given b \<longrightarrow> features t ! 5 = Finite (if b then 1 else 0))
       \<and> (f_hour = Absent \<longrightarrow> features t ! 6 = Finite 0)
       \<and> (\<forall>b. f_hour = Given b \<longrightarrow> features t ! 6 = Finite (if b then 1 else 0))
       \<and> (f_risk = Absent \<longrightarrow> features t ! 7 = Finite 0)
       \<and> (\<forall>v. f_risk = Given v \<longrightarrow> features t ! 7 = Finite (of_int v))
       \<and> (\<forall>m s. \<exists>rest. fst (predict_fraud (Some m) (Some s) t) = Transform (features t) # rest)"
proof -
  note f = validate_Inr_fields [OF assms]
  have amt: "f_amount = Given (amount t)"
    and age: "accountAgeDays t = optional_field None f_age"
    and conf: "confidence t = optional_field None f_conf"
    and cost: "totalCost t = optional_field (Some (Finite 0)) f_cost"
    and new: "newAccount t = optional_field (Some False) f_new"
    and intl: "internationalTransfer t = optional_field (Some False) f_intl"
    and hour: "unusualHour t = optional_field (Some False) f_hour"
    and risk: "riskFlagCount t = optional_field (Some 0) f_risk"
    using f by blast+
  have len: "length (features t) = 8" by (simp add: features_def)
  have a0: "f_amount = Given (features t ! 0)" using amt by (simp add: features_def)
  have n1: "features t ! 1 = Finite (of_int (or_int (optional_field None f_age) 0))"
    by (simp add: features_def age)
  have n2: "features t ! 2 = or_float (optional_field None f_conf) (Finite 0)"
    by (simp add: features_def conf)
  have n3: "features t ! 3 = or_float (optional_field (Some (Finite 0)) f_cost) (Finite 0)"
    by (simp add: features_def cost)
  have n4: "features t ! 4 = Finite (if truthy (optional_field (Some False) f_new) then 1 else 0)"
    by (simp add: features_def new)
  have n5: "features t ! 5 = Finite (if truthy (optional_field (Some False) f_intl) then 1 else 0)"
    by (simp add: features_def intl)
  have n6: "features t ! 6 = Finite (if truthy (optional_field (Some False) f_hour) then 1 else 0)"
    by (simp add: features_def hour)
  have n7: "features t ! 7 = Finite (of_int (or_int (optional_field (Some 0) f_risk) 0))"
    by (simp add: features_def risk)
  have a1: "f_age = Absent \<longrightarrow> features t ! 1 = Finite 0"
    and b1: "\<forall>v. f_age = Given v \<longrightarrow> features t ! 1 = Finite (of_int v)"
    unfolding n1 by (simp_all add: or_int_def)
  have a2: "f_conf = Absent \<longrightarrow> features t ! 2 = Finite 0"
    and b2: "\<forall>v. f_conf = Given v \<longrightarrow> features t ! 2 = v"
    unfolding n2 by (simp_all add: or_float_def)
  have a3: "f_cost = Absent \<longrightarrow> features t ! 3 = Finite 0"
    and b3: "\<forall>v. f_cost = Given v \<longrightarrow> features t ! 3 = v"
    unfolding n3 by (simp_all add: or_float_def)
  have a4: "f_new = Absent \<longrightarrow> features t ! 4 = Finite 0"
    and b4: "\<forall>b. f_new = Given b \<longrightarrow> features t ! 4 = Finite (if b then 1 else 0)"
    unfolding n4 by (simp_all add: truthy_def)
  have a5: "f_intl = Absent \<longrightarrow> features t ! 5 = Finite 0"
    and b5: "\<forall>b. f_intl = Given b \<longrightarrow> features t ! 5 = Finite (if b then 1 else 0)"
    unfolding n5 by (simp_all add: truthy_def)
  have a6: "f_hour = Absent \<longrightarrow> features t ! 6 = Finite 0"
    and b6: "\<forall>b. f_hour = Given b \<longrightarrow> features t ! 6 = Finite (if b then 1 else 0)"
    unfolding n6 by (simp_all add: truthy_def)
  have a7: "f_risk = Absent \<longrightarrow> features t ! 7 = Finite 0"
    and b7: "\<forall>v. f_risk = Given v \<longrightarrow> features t ! 7 = Finite (of_int v)"
    unfolding n7 by (simp_all add: or_int_def)
  have a8: "\<forall>m s. \<exists>rest. fst (predict_fraud (Some m) (Some s) t) = Transform (features t) # rest"
    using first_call_is_transform by blast
  show ?thesis
    by (intro conjI) (rule len a0 a1 b1 a2 b2 a3 b3 a4 b4 a5 b5 a6 b6 a7 b7 a8)+
qed


theorem absent_fields_take_defaults_witness:
  "TransactionRequest_validate (Given (Finite 100)) Absent Absent Absent Absent Absent Absent Absent
     = Inr (amount_only (Finite 100))
   \<and> features (amount_only (Finite 100))
     = [Finite 100, Finite 0, Finite 0, Finite 0, Finite 0, Finite 0, Finite 0, Finite 0]
   \<and> features (amount_only (Finite 100)) ! 1 = Finite 0
   \<and> features (amount_only (Finite 100)) ! 7 = Finite 0"
proof -
  note inst = absent_fields_take_defaults [OF validate_amount_only]
  have a: "features (amount_only (Finite 100)) ! 1 = Finite 0"
    using inst by (elim conjE) simp
  have b: "features (amount_only (Finite 100)) ! 7 = Finite 0"
    using inst by (elim conjE) simp
  show ?thesis
    by (intro conjI) (rule validate_amount_only features_amount_only a b)+
qed


subsection \<open>The explanation generator\<close>

lemma risk_factors_clauses:
  "risk_factors t =
     (case riskFlagCount t of
        None \<Rightarrow> Inl none_gt_int_TypeError
      | Some n \<Rightarrow>
          Inr (map snd (filter fst
            [(fl_greater (amount t) (Finite 5000),
                ''high amount ($'' @ format_2f True (amount t) @ '')''),
             (truthy (newAccount t), ''new account''),
             (truthy (internationalTransfer t), ''international transfer''),
             (truthy (unusualHour t), ''unusual hour''),
             (2 < n, ''multiple risk flags ('' @ str_int n @ '')'')])))"
  by (simp add: risk_factors_def Let_def split: option.splits)

lemma high_amount_clause_iff:
  "risk_factors t = Inr rf \<Longrightarrow>
   (\<exists>c\<in>set rf. starts_with ''high amount'' c) \<longleftrightarrow> fl_greater (amount t) (Finite 5000)"
  by (auto simp: risk_factors_clauses starts_with_def split: option.splits if_splits)

lemma risk_flags_clause_iff:
  "risk_factors t = Inr rf \<Longrightarrow>
   (\<exists>c\<in>set rf. starts_with ''multiple risk flags'' c) \<longleftrightarrow> (\<exists>n. riskFlagCount t = Some n \<and> 2 < n)"
  by (auto simp: risk_factors_clauses starts_with_def split: option.splits if_splits)

lemma risk_factors_total: "riskFlagCount t = Some n \<Longrightarrow> \<exists>rf. risk_factors t = Inr rf"
  by (simp add: risk_factors_clauses)


lemma response_explanation:
  assumes "predict_fraud model scaler t = (tr, Inr resp)"
  shows "\<exists>d. generate_explanation t (normalized_score d) (isAnomaly resp)
                = Inr (explanation resp)
           \<and> isAnomaly resp = fl_greater (normalized_score d) (Finite 0.5)
           \<and> anomalyScore resp = py_round (normalized_score d) 4"
proof -
  obtain m s where ms: "model = Some m" "scaler = Some s"
    using assms by (auto simp: predict_fraud_def split: option.splits)
  obtain fs where fs: "transform s (features t) = Inr fs"
    using assms ms
    by (cases "transform s (features t)")
       (auto simp: predict_fraud_def predict_fraud_try_def Let_def and_then_def call_def)
  obtain p where p: "predict m fs = Inr p"
    using assms ms fs
    by (cases "predict m fs")
       (auto simp: predict_fraud_def predict_fraud_try_def Let_def and_then_def call_def)
  obtain raw where raw: "score_samples m fs = Inr raw"
    using assms ms fs p
    by (cases "score_samples m fs")
       (auto simp: predict_fraud_def predict_fraud_try_def Let_def and_then_def call_def)
  obtain d where d: "decision_function m fs = Inr d"
    using assms ms fs p raw
    by (cases "decision_function m fs")
       (auto simp: predict_fraud_def predict_fraud_try_def Let_def and_then_def call_def)
  obtain ex where ex: "generate_explanation t (normalized_score d)
                (fl_greater (normalized_score d) (Finite 0.5)) = Inr ex"
    using assms ms fs p raw d
    by (cases "generate_explanation t (normalized_score d)
                (fl_greater (normalized_score d) (Finite 0.5))")
       (auto simp: predict_fraud_def predict_fraud_try_def Let_def and_then_def call_def
          local_step_def)
  have resp: "resp = \<lparr>anomalyScore = py_round (normalized_score d) 4,
           isAnomaly = fl_greater (normalized_score d) (Finite 0.5),
           model_confidence = py_round (score_confidence (normalized_score d)) 4,
           explanation = ex\<rparr>"
    using assms predict_fraud_success [OF fs p raw d ex] ms by simp
  have "generate_explanation t (normalized_score d) (isAnomaly resp) = Inr (explanation resp)"
    unfolding resp using ex by simp
  moreover have "isAnomaly resp = fl_greater (normalized_score d) (Finite 0.5)"
    unfolding resp by simp
  moreover have "anomalyScore resp = py_round (normalized_score d) 4"
    unfolding resp by simp
  ultimately show ?thesis by blast
qed


text \<open>
  Claim C9. The explanation is a function of its three arguments alone: equal arguments give
  equal strings. More precisely it reads five fields of the request only (amount,
  newAccount, internationalTransfer, unusualHour, riskFlagCount), and the explanation in
  every response of the handler is this function of the request, the unrounded score and
  the decision, whatever capability is loaded.
\<close>

theorem explanation_deterministic:
  "(t1 = t2 \<and> s1 = s2 \<and> a1 = a2 \<longrightarrow>
      generate_explanation t1 s1 a1 = generate_explanation t2 s2 a2)
   \<and> (amount t1 = amount t2 \<and> newAccount t1 = newAccount t2
       \<and> internationalTransfer t1 = internationalTransfer t2
       \<and> unusualHour t1 = unusualHour t2 \<and> riskFlagCount t1 = riskFlagCount t2 \<longrightarrow>
      generate_explanation t1 s a = generate_explanation t2 s a)
   \<and> (\<forall>model scaler tr resp. predict_fraud model scaler t = (tr, Inr resp) \<longrightarrow>
        (\<exists>d. Inr (explanation resp)
                = generate_explanation t (normalized_score d) (isAnomaly resp)
              \<and> anomalyScore resp = py_round (normalized_score d) 4))"
proof -
  have a: "t1 = t2 \<and> s1 = s2 \<and> a1 = a2 \<longrightarrow>
      generate_explanation t1 s1 a1 = generate_explanation t2 s2 a2"
    by simp
  have b: "amount t1 = amount t2 \<and> newAccount t1 = newAccount t2
       \<and> internationalTransfer t1 = internationalTransfer t2
       \<and> unusualHour t1 = unusualHour t2 \<and> riskFlagCount t1 = riskFlagCount t2 \<longrightarrow>
      generate_explanation t1 s a = generate_explanation t2 s a"
  proof (intro impI, elim conjE)
    assume eqs: "amount t1 = amount t2" "newAccount t1 = newAccount t2"
      "internationalTransfer t1 = internationalTransfer t2"
      "unusualHour t1 = unusualHour t2" "riskFlagCount t1 = riskFlagCount t2"
    have "risk_factors t1 = risk_factors t2"
      unfolding risk_factors_clauses eqs ..
    then show "generate_explanation t1 s a = generate_explanation t2 s a"
      by (simp add: generate_explanation_def)
  qed
  have c: "\<forall>model scaler tr resp. predict_fraud model scaler t = (tr, Inr resp) \<longrightarrow>
        (\<exists>d. Inr (explanation resp)
                = generate_explanation t (normalized_score d) (isAnomaly resp)
              \<and> anomalyScore resp = py_round (normalized_score d) 4)"
  proof (intro allI impI)
    fix model scaler tr resp
    assume run: "predict_fraud model scaler t = (tr, Inr resp)"
    from response_explanation [OF run] obtain d where
      "generate_explanation t (normalized_score d) (isAnomaly resp) = Inr (explanation resp)"
      "anomalyScore resp = py_round (normalized_score d) 4"
      by blast
    then show "\<exists>d. Inr (explanation resp)
                = generate_explanation t (normalized_score d) (isAnomaly resp)
              \<and> anomalyScore resp = py_round (normalized_score d) 4"
      by (intro exI [of _ d]) simp
  qed
  show ?thesis by (intro conjI) (rule a b c)+
qed


theorem explanation_deterministic_witness:
  "scenario_B = scenario_B
   \<and> amount (scenario_B\<lparr>accountAgeDays := Some 400, totalCost := None\<rparr>) = amount scenario_B
   \<and> generate_explanation (scenario_B\<lparr>accountAgeDays := Some 400, totalCost := None\<rparr>)
        (Finite 0.91) True
     = generate_explanation scenario_B (Finite 0.91) True"
proof -
  have h: "amount (scenario_B\<lparr>accountAgeDays := Some 400, totalCost := None\<rparr>)
             = amount scenario_B
       \<and> newAccount (scenario_B\<lparr>accountAgeDays := Some 400, totalCost := None\<rparr>)
             = newAccount scenario_B
       \<and> internationalTransfer (scenario_B\<lparr>accountAgeDays := Some 400, totalCost := None\<rparr>)
             = internationalTransfer scenario_B
       \<and> unusualHour (scenario_B\<lparr>accountAgeDays := Some 400, totalCost := None\<rparr>)
             = unusualHour scenario_B
       \<and> riskFlagCount (scenario_B\<lparr>accountAgeDays := Some 400, totalCost := None\<rparr>)
             = riskFlagCount scenario_B"
    by simp
  have e: "generate_explanation (scenario_B\<lparr>accountAgeDays := Some 400, totalCost := None\<rparr>)
        (Finite 0.91) True
     = generate_explanation scenario_B (Finite 0.91) True"
    using explanation_deterministic
      [of "scenario_B\<lparr>accountAgeDays := Some 400, totalCost := None\<rparr>" scenario_B
          _ _ _ _ "Finite 0.91" True] h
    by blast
  show ?thesis using h e by blast
qed

text \<open>
  Claim C10. The two numeric indicators are strict: the list of risk factors holds a
  ``high amount'' clause exactly when the amount is greater than 5000, so not at 5000, and a
  ``multiple risk flags'' clause exactly when the count is greater than 2, so not at 2.
\<close>

theorem indicator_thresholds_strict:
  "(amount t = Finite 5000 \<longrightarrow>
      (\<forall>rf. risk_factors t = Inr rf \<longrightarrow> \<not> (\<exists>c\<in>set rf. starts_with ''high amount'' c)))
   \<and> (riskFlagCount t = Some 2 \<longrightarrow>
      (\<exists>rf. risk_factors t = Inr rf \<and> \<not> (\<exists>c\<in>set rf. starts_with ''multiple risk flags'' c)))
   \<and> (\<forall>a rf. amount t = Finite a \<and> risk_factors t = Inr rf \<longrightarrow>
        ((\<exists>c\<in>set rf. starts_with ''high amount'' c) \<longleftrightarrow> 5000 < a))
   \<and> (\<forall>n rf. riskFlagCount t = Some n \<and> risk_factors t = Inr rf \<longrightarrow>
        ((\<exists>c\<in>set rf. starts_with ''multiple risk flags'' c) \<longleftrightarrow> 2 < n))"
proof -
  have a: "amount t = Finite 5000 \<longrightarrow>
      (\<forall>rf. risk_factors t = Inr rf \<longrightarrow> \<not> (\<exists>c\<in>set rf. starts_with ''high amount'' c))"
    using high_amount_clause_iff [of t] by (simp add: fl_greater_def)
  have b: "riskFlagCount t = Some 2 \<longrightarrow>
      (\<exists>rf. risk_factors t = Inr rf \<and> \<not> (\<exists>c\<in>set rf. starts_with ''multiple risk flags'' c))"
  proof
    assume two: "riskFlagCount t = Some 2"
    then obtain rf where rf: "risk_factors t = Inr rf" using risk_factors_total by blast
    then have "\<not> (\<exists>c\<in>set rf. starts_with ''multiple risk flags'' c)"
      using risk_flags_clause_iff [OF rf] two by simp
    with rf show "\<exists>rf. risk_factors t = Inr rf
        \<and> \<not> (\<exists>c\<in>set rf. starts_with ''multiple risk flags'' c)"
      by blast
  qed
  have c: "\<forall>a rf. amount t = Finite a \<and> risk_factors t = Inr rf \<longrightarrow>
        ((\<exists>c\<in>set rf. starts_with ''high amount'' c) \<longleftrightarrow> 5000 < a)"
    using high_amount_clause_iff [of t] by (simp add: fl_greater_def)
  have d: "\<forall>n rf. riskFlagCount t = Some n \<and> risk_factors t = Inr rf \<longrightarrow>
        ((\<exists>c\<in>set rf. starts_with ''multiple risk flags'' c) \<longleftrightarrow> 2 < n)"
    using risk_flags_clause_iff [of t] by simp
  show ?thesis by (intro conjI) (rule a b c d)+
qed


theorem indicator_thresholds_strict_witness:
  "amount (amount_only (Finite 5000)) = Finite 5000
   \<and> risk_factors (amount_only (Finite 5000)) = Inr []
   \<and> riskFlagCount ((amount_only (Finite 100))\<lparr>riskFlagCount := Some 2\<rparr>) = Some 2
   \<and> risk_factors ((amount_only (Finite 100))\<lparr>riskFlagCount := Some 2\<rparr>) = Inr []
   \<and> \<not> (\<exists>c\<in>set []. starts_with ''high amount'' c)
   \<and> risk_factors ((amount_only (Finite 5000.01))\<lparr>riskFlagCount := Some 3\<rparr>)
       = Inr [''high amount ($5,000.01)'', ''multiple risk flags (3)'']"
proof -
  have h1: "amount (amount_only (Finite 5000)) = Finite 5000" by (simp add: amount_only_def)
  have r1: "risk_factors (amount_only (Finite 5000)) = Inr []"
    by (simp add: risk_factors_clauses amount_only_def fl_greater_def truthy_def)
  have h2: "riskFlagCount ((amount_only (Finite 100))\<lparr>riskFlagCount := Some 2\<rparr>) = Some 2"
    by simp
  have r2: "risk_factors ((amount_only (Finite 100))\<lparr>riskFlagCount := Some 2\<rparr>) = Inr []"
    by (simp add: risk_factors_clauses amount_only_def fl_greater_def truthy_def)
  have "\<forall>rf. risk_factors (amount_only (Finite 5000)) = Inr rf \<longrightarrow>
      \<not> (\<exists>c\<in>set rf. starts_with ''high amount'' c)"
    using indicator_thresholds_strict [of "amount_only (Finite 5000)"] h1 by blast
  then have n1: "\<not> (\<exists>c\<in>set []. starts_with ''high amount'' c)" using r1 by blast
  have r3: "risk_factors ((amount_only (Finite 5000.01))\<lparr>riskFlagCount := Some 3\<rparr>)
       = Inr [''high amount ($5,000.01)'', ''multiple risk flags (3)'']"
    by (simp add: risk_factors_clauses amount_only_def fl_greater_def truthy_def rint_def Let_def
        str_nat.simps group_thousands.simps digit_char_def str_int_def)
  show ?thesis by (intro conjI) (rule h1 r1 h2 r2 n1 r3)+
qed



subsection \<open>The explanation templates\<close>

text \<open>
  When \<^verbatim>\<open>riskFlagCount\<close> holds an integer, the explanation is one of the three
  templates, with the score in the format \<^verbatim>\<open>.2f\<close> and the clauses of the indicators
  that hold, in the order high amount, new account, international transfer, unusual hour,
  multiple risk flags, joined by a comma and a space. A finite score prints with exactly two
  decimals. Scenario B of the specification gives the string the specification quotes.
\<close>

lemma generate_explanation_None:
  "riskFlagCount t = None \<Longrightarrow> generate_explanation t sc a = Inl none_gt_int_TypeError"
  by (simp add: generate_explanation_def risk_factors_clauses)

lemma explanation_templates:
  assumes "riskFlagCount t = Some n"
  shows "\<exists>rf. rf = map snd (filter fst
            [(fl_greater (amount t) (Finite 5000),
                ''high amount ($'' @ format_2f True (amount t) @ '')''),
             (truthy (newAccount t), ''new account''),
             (truthy (internationalTransfer t), ''international transfer''),
             (truthy (unusualHour t), ''unusual hour''),
             (2 < n, ''multiple risk flags ('' @ str_int n @ '')'')])
         \<and> generate_explanation t sc a =
             Inr (if a then
                    (if rf \<noteq> [] then
                       ''Anomaly detected (score: '' @ format_2f False sc
                         @ ''). Risk factors: '' @ join '', '' rf
                     else
                       ''Anomaly detected (score: '' @ format_2f False sc
                         @ ''). Transaction pattern deviates significantly from normal behavior.'')
                  else
                    ''Normal transaction (score: '' @ format_2f False sc
                      @ ''). No significant anomalies detected.'')"
  using assms by (simp add: generate_explanation_def risk_factors_clauses)

lemma digit_char_is_digit: "d < 10 \<Longrightarrow> digit_char d \<in> set ''0123456789''"
  unfolding digit_char_def by (rule nth_mem) simp

lemma format_2f_two_decimals:
  "\<exists>ip d1 d2. format_2f g (Finite x) = ip @ ''.'' @ [d1, d2]
      \<and> d1 \<in> set ''0123456789'' \<and> d2 \<in> set ''0123456789''"
proof -
  let ?n = "nat (rint (\<bar>x\<bar> * 100))"
  have d1: "digit_char (?n mod 100 div 10) \<in> set ''0123456789''"
    by (rule digit_char_is_digit) (simp add: div_less_iff_less_mult)
  have d2: "digit_char (?n mod 10) \<in> set ''0123456789''"
    by (rule digit_char_is_digit) simp
  show ?thesis
    using d1 d2 by (simp add: Let_def del: set_simps)
qed

lemma scenario_B_explanation:
  "generate_explanation scenario_B (Finite 0.91) True =
     Inr ''Anomaly detected (score: 0.91). Risk factors: high amount ($7,500.50), new account''"
  by (simp add: generate_explanation_def risk_factors_clauses scenario_B_def amount_only_def
      fl_greater_def truthy_def rint_def Let_def str_nat.simps group_thousands.simps digit_char_def)

lemma validate_null_risk:
  "TransactionRequest_validate (Given (Finite 100)) Absent Absent Absent Absent Absent Absent Null
     = Inr null_risk_request"
  by (simp add: TransactionRequest_validate_def Let_def null_risk_request_def amount_only_def
      fl_ge_def fl_le_def ge0_ok_def le1_ok_def int_ge0_ok_def constraint_errors_def)


text \<open>
  Claim C4 asks for one of the three templates on every well-formed input. The class
  \<^verbatim>\<open>TransactionRequest\<close> declares \<^verbatim>\<open>riskFlagCount: Optional[int]\<close>, so the body
  \<^verbatim>\<open>{"amount": 100, "riskFlagCount": null}\<close> passes validation. The feature
  extraction reads the field as \<^verbatim>\<open>riskFlagCount or 0\<close> and gets 0; the explanation
  generator compares the field with 2 directly, which raises \<^verbatim>\<open>TypeError\<close>, and the
  handler answers 500 instead of an explanation.
\<close>

theorem explanation_raises_on_null_risk_flag_count:
  "TransactionRequest_validate (Given (Finite 100)) Absent Absent Absent Absent Absent Absent Null
     = Inr null_risk_request
   \<and> features null_risk_request ! 7 = Finite 0
   \<and> generate_explanation null_risk_request (Finite 0.5) False = Inl none_gt_int_TypeError
   \<and> snd (predict_fraud (Some (constant_model 1 (Finite 0) (Finite 0))) (Some identity_scaler)
            null_risk_request)
     = Inl (HTTPException 500 (''Prediction failed: '' @ none_gt_int_TypeError))"
proof -
  have n: "riskFlagCount null_risk_request = None"
    by (simp add: null_risk_request_def)
  have f7: "features null_risk_request ! 7 = Finite 0"
    by (simp add: features_def n or_int_def)
  have ex: "generate_explanation null_risk_request sc a = Inl none_gt_int_TypeError" for sc a
    using n by (rule generate_explanation_None)
  have run: "snd (predict_fraud (Some (constant_model 1 (Finite 0) (Finite 0)))
            (Some identity_scaler) null_risk_request)
     = Inl (HTTPException 500 (''Prediction failed: '' @ none_gt_int_TypeError))"
    by (simp add: predict_fraud_def predict_fraud_try_def Let_def and_then_def call_def
        local_step_def constant_model_def identity_scaler_def ex)
  show ?thesis by (intro conjI) (rule validate_null_risk f7 ex run)+
qed


subsection \<open>The discarded score paths\<close>

lemma label_score_anomaly_clamped:
  "fl_le (Finite 0.5) (label_score (- 1) raw) \<and> fl_le (label_score (- 1) raw) (Finite 1)"
proof (cases raw)
  case (Finite x)
  have pos: "0 < 1 + exp x" using exp_gt_zero [of x] by linarith
  then have nz: "1 + exp x \<noteq> 0" by simp
  have lt: "1 / (1 + exp x) < 1" using squash_bounds [of x] by simp
  show ?thesis
    using lt nz Finite
    by (simp add: label_score_def py_min_def py_max_def fl_greater_def fl_le_def)
next
  case PosInf
  then show ?thesis
    by (simp add: label_score_def py_min_def py_max_def fl_greater_def fl_le_def)
next
  case NegInf
  then show ?thesis
    by (simp add: label_score_def py_min_def py_max_def fl_greater_def fl_le_def)
next
  case NaN
  then show ?thesis
    by (simp add: label_score_def py_min_def py_max_def fl_greater_def fl_le_def)
qed

lemma label_score_normal_clamped:
  "fl_le (Finite 0) (label_score 1 raw) \<and> fl_le (label_score 1 raw) (Finite 0.5)"
proof (cases raw)
  case (Finite x)
  have pos: "0 < 1 + exp (- x)" using exp_gt_zero [of "- x"] by linarith
  then have nz: "1 + exp (- x) \<noteq> 0" by simp
  have gt: "0 < 1 / (1 + exp (- x))" using squash_bounds [of "- x"] by simp
  show ?thesis
    using gt nz Finite
    by (simp add: label_score_def py_min_def py_max_def fl_greater_def fl_le_def)
next
  case PosInf
  then show ?thesis
    by (simp add: label_score_def py_min_def py_max_def fl_greater_def fl_le_def)
next
  case NegInf
  then show ?thesis
    by (simp add: label_score_def py_min_def py_max_def fl_greater_def fl_le_def)
next
  case NaN
  then show ?thesis
    by (simp add: label_score_def py_min_def py_max_def fl_greater_def fl_le_def)
qed

lemma try_without_label_score: "predict_fraud_try m s t = simplified_try m s t"
  by (simp add: predict_fraud_try_def simplified_try_def Let_def)

lemma try_ignores_label_results:
  "predict_fraud_try (map_label_results f g m) s t = predict_fraud_try m s t"
proof (cases "transform s (features t)")
  case (Inl e)
  then show ?thesis
    by (simp add: predict_fraud_try_def Let_def and_then_def call_def)
next
  case (Inr fs)
  note fs = this
  show ?thesis
  proof (cases "predict m fs")
    case (Inl e)
    then show ?thesis using fs
      by (simp add: predict_fraud_try_def Let_def and_then_def call_def map_label_results_def)
  next
    case (Inr p)
    note p = this
    show ?thesis
    proof (cases "score_samples m fs")
      case (Inl e)
      then show ?thesis using fs p
        by (simp add: predict_fraud_try_def Let_def and_then_def call_def map_label_results_def)
    next
      case (Inr raw)
      then show ?thesis using fs p
        by (simp add: predict_fraud_try_def Let_def and_then_def call_def map_label_results_def)
    qed
  qed
qed


text \<open>
  Claim C5. The result of the handler, the calls it makes and what it returns or raises, is
  that of the pipeline without lines 194 to 201, for every request and every state of the
  two globals. The label and the raw score the capability returns never reach the response:
  a model that returns other values for them, and raises where the first one raises, gives
  the same result. The discarded score itself lies in \<open>[0.5, 1]\<close> for the label \<open>-1\<close>
  and in \<open>[0, 0.5]\<close> for the label \<open>1\<close>, whatever the raw score.
\<close>

theorem dead_logic_never_reaches_response:
  "predict_fraud model scaler t = predict_fraud_simplified model scaler t
   \<and> predict_fraud (Some (map_label_results f g m)) scaler t = predict_fraud (Some m) scaler t
   \<and> fl_le (Finite 0.5) (label_score (- 1) raw) \<and> fl_le (label_score (- 1) raw) (Finite 1)
   \<and> fl_le (Finite 0) (label_score 1 raw) \<and> fl_le (label_score 1 raw) (Finite 0.5)"
proof -
  have a: "predict_fraud model scaler t = predict_fraud_simplified model scaler t"
    by (simp add: predict_fraud_def predict_fraud_simplified_def try_without_label_score
        split: option.splits)
  have b: "predict_fraud (Some (map_label_results f g m)) scaler t
      = predict_fraud (Some m) scaler t"
    by (simp add: predict_fraud_def try_ignores_label_results split: option.splits)
  show ?thesis
    using a b label_score_anomaly_clamped [of raw] label_score_normal_clamped [of raw]
    by blast
qed

subsection \<open>Non-finite values\<close>

text \<open>
  The framework validates the body against \<^verbatim>\<open>TransactionRequest\<close> and calls the
  handler only with a validated object. What it sends to the client when validation fails
  is decided outside \<^verbatim>\<open>app.py\<close> and is not modelled; the facts below say which
  bodies fail validation and what the handler does with the others.
\<close>

lemma format_2f_half: "format_2f False (Finite (1 / 2)) = ''0.50''"
  by (simp add: rint_def Let_def str_nat.simps digit_char_def)

lemma normalized_score_NaN_iff: "normalized_score d = NaN \<longleftrightarrow> d = NaN"
proof (cases d)
  case (Finite r)
  then show ?thesis by (simp add: normalized_score_Finite)
qed (simp_all add: normalized_score_def)

lemma py_round_NaN_iff: "py_round x n = NaN \<longleftrightarrow> x = NaN"
  by (cases x) simp_all

lemma score_confidence_NaN_iff: "score_confidence (normalized_score d) = NaN \<longleftrightarrow> d = NaN"
proof (cases d)
  case (Finite r)
  then show ?thesis by (simp add: normalized_score_Finite score_confidence_Finite)
qed (simp_all add: normalized_score_def score_confidence_def fl_sub_def inf_of_sign_def)

lemma validation_rejects_non_finite:
  assumes "f_amount = Given NaN \<or> f_amount = Given NegInf
           \<or> f_conf = Given NaN \<or> f_conf = Given PosInf \<or> f_conf = Given NegInf
           \<or> f_cost = Given NaN \<or> f_cost = Given NegInf"
  shows "\<exists>errs. TransactionRequest_validate f_amount f_age f_conf f_cost f_new f_intl f_hour f_risk
           = Inl errs"
proof -
  have "\<not> fl_ge NaN (Finite 0)" "\<not> fl_ge NegInf (Finite 0)"
    "\<not> ge0_ok (Some NaN)" "\<not> le1_ok (Some PosInf)" "\<not> ge0_ok (Some NegInf)"
    by (simp_all add: fl_ge_def fl_le_def le1_ok_def ge0_ok_def)
  then have "(\<exists>a. f_amount = Given a \<and> \<not> fl_ge a (Finite 0))
     \<or> constraint_errors (optional_field None f_conf)
          (optional_field (Some (Finite 0)) f_cost) (optional_field (Some 0) f_risk) \<noteq> []"
    using assms by (auto simp: constraint_errors_def)
  then show ?thesis
    by (cases f_amount) (auto simp: TransactionRequest_validate_def Let_def)
qed

lemma validation_accepts_infinite_amount:
  assumes "TransactionRequest_validate (Given (Finite a)) f_age f_conf f_cost f_new f_intl
             f_hour f_risk = Inr t0"
  shows "TransactionRequest_validate (Given PosInf) f_age f_conf f_cost f_new f_intl f_hour f_risk
           = Inr (t0\<lparr>amount := PosInf\<rparr>)"
proof -
  have "fl_ge PosInf (Finite 0)" by (simp add: fl_ge_def fl_le_def)
  then show ?thesis
    using assms by (auto simp: TransactionRequest_validate_def Let_def split: if_splits)
qed

lemma validation_accepts_infinite_totalCost:
  assumes "TransactionRequest_validate f_amount f_age f_conf (Given (Finite c)) f_new f_intl
             f_hour f_risk = Inr t0"
  shows "TransactionRequest_validate f_amount f_age f_conf (Given PosInf) f_new f_intl f_hour
           f_risk = Inr (t0\<lparr>totalCost := Some PosInf\<rparr>)"
proof -
  have "ge0_ok (Some PosInf)" by (simp add: ge0_ok_def fl_ge_def fl_le_def)
  then show ?thesis
    using assms
    by (cases f_amount)
       (auto simp: TransactionRequest_validate_def Let_def constraint_errors_def
          split: if_splits)
qed

lemma features_amount_update: "features (t\<lparr>amount := a\<rparr>) = a # tl (features t)"
  by (simp add: features_def)

lemma features_totalCost_PosInf: "features (t\<lparr>totalCost := Some PosInf\<rparr>) ! 3 = PosInf"
  by (simp add: features_def or_float_def)

lemma NaN_explanation:
  "riskFlagCount t = Some n \<Longrightarrow>
   generate_explanation t NaN False
     = Inr ''Normal transaction (score: nan). No significant anomalies detected.''"
  by (simp add: generate_explanation_def risk_factors_clauses)


text \<open>
  Claim C6, as stated, fails: a body whose amount is \<open>+\<infinity>\<close> satisfies the declared
  constraint \<^verbatim>\<open>ge=0\<close>, so it is validated and handed to the handler, which passes the
  \<open>+\<infinity>\<close> to the capability and, with a capability that answers, returns a response.
\<close>

theorem non_finite_counterexample:
  "TransactionRequest_validate (Given PosInf) Absent Absent Absent Absent Absent Absent Absent
     = Inr (amount_only PosInf)
   \<and> predict_fraud (Some (constant_model 1 (Finite 0) (Finite 0))) (Some identity_scaler)
        (amount_only PosInf)
     = ([Transform [PosInf, Finite 0, Finite 0, Finite 0, Finite 0, Finite 0, Finite 0, Finite 0],
         Predict [PosInf, Finite 0, Finite 0, Finite 0, Finite 0, Finite 0, Finite 0, Finite 0],
         ScoreSamples [PosInf, Finite 0, Finite 0, Finite 0, Finite 0, Finite 0, Finite 0, Finite 0],
         DecisionFunction
           [PosInf, Finite 0, Finite 0, Finite 0, Finite 0, Finite 0, Finite 0, Finite 0]],
        Inr \<lparr>anomalyScore = Finite 0.5, isAnomaly = False, model_confidence = Finite 0,
          explanation = ''Normal transaction (score: 0.50). No significant anomalies detected.''\<rparr>)"
proof -
  have v: "TransactionRequest_validate (Given PosInf) Absent Absent Absent Absent Absent Absent Absent
      = Inr (amount_only PosInf)"
    by (simp add: TransactionRequest_validate_def Let_def amount_only_def fl_ge_def fl_le_def
        ge0_ok_def le1_ok_def int_ge0_ok_def constraint_errors_def)
  have ex: "generate_explanation (amount_only PosInf) (normalized_score (Finite 0))
       (fl_greater (normalized_score (Finite 0)) (Finite 0.5))
      = Inr ''Normal transaction (score: 0.50). No significant anomalies detected.''"
    by (simp add: normalized_score_zero fl_greater_def generate_explanation_def
        risk_factors_clauses amount_only_def format_2f_half del: format_2f.simps)
  have run: "predict_fraud (Some (constant_model 1 (Finite 0) (Finite 0))) (Some identity_scaler)
        (amount_only PosInf)
      = ([Transform (features (amount_only PosInf)), Predict (features (amount_only PosInf)),
          ScoreSamples (features (amount_only PosInf)),
          DecisionFunction (features (amount_only PosInf))],
         Inr \<lparr>anomalyScore = py_round (normalized_score (Finite 0)) 4,
           isAnomaly = fl_greater (normalized_score (Finite 0)) (Finite 0.5),
           model_confidence = py_round (score_confidence (normalized_score (Finite 0))) 4,
           explanation = ''Normal transaction (score: 0.50). No significant anomalies detected.''\<rparr>)"
    by (rule predict_fraud_success [OF _ _ _ _ ex])
       (simp_all add: identity_scaler_def constant_model_def)
  have run': "predict_fraud (Some (constant_model 1 (Finite 0) (Finite 0))) (Some identity_scaler)
        (amount_only PosInf)
     = ([Transform [PosInf, Finite 0, Finite 0, Finite 0, Finite 0, Finite 0, Finite 0, Finite 0],
         Predict [PosInf, Finite 0, Finite 0, Finite 0, Finite 0, Finite 0, Finite 0, Finite 0],
         ScoreSamples [PosInf, Finite 0, Finite 0, Finite 0, Finite 0, Finite 0, Finite 0, Finite 0],
         DecisionFunction
           [PosInf, Finite 0, Finite 0, Finite 0, Finite 0, Finite 0, Finite 0, Finite 0]],
        Inr \<lparr>anomalyScore = Finite 0.5, isAnomaly = False, model_confidence = Finite 0,
          explanation = ''Normal transaction (score: 0.50). No significant anomalies detected.''\<rparr>)"
    by (simp add: run features_amount_only normalized_score_zero score_confidence_Finite
        fl_greater_def)
  show ?thesis by (intro conjI) (rule v run')+
qed


text \<open>
  Claim C6, amended. A body whose amount is NaN or \<open>-\<infinity>\<close>, whose confidence is NaN,
  \<open>+\<infinity>\<close> or \<open>-\<infinity>\<close>, or whose totalCost is NaN or \<open>-\<infinity>\<close> fails validation, so
  the handler is not called for it. A body whose amount is \<open>+\<infinity>\<close> and is otherwise valid
  passes validation, and the \<open>+\<infinity>\<close> is the first entry of the row of the handler's first
  capability call; a totalCost of \<open>+\<infinity>\<close> passes validation too and is the fourth entry
  of the row. The handler has no finiteness check: when the four capability calls return
  and riskFlagCount holds an integer, it returns a response, whose anomaly score is NaN
  exactly when the decision score is NaN, and so is its confidence; for a NaN decision score
  the explanation is the normal-transaction template with the score printed as
  \<^verbatim>\<open>nan\<close>.
\<close>

theorem non_finite_values_amended:
  "(f_amount = Given NaN \<or> f_amount = Given NegInf
      \<or> f_conf = Given NaN \<or> f_conf = Given PosInf \<or> f_conf = Given NegInf
      \<or> f_cost = Given NaN \<or> f_cost = Given NegInf \<longrightarrow>
      (\<exists>errs. TransactionRequest_validate f_amount f_age f_conf f_cost f_new f_intl f_hour f_risk
         = Inl errs))
   \<and> (TransactionRequest_validate (Given (Finite a)) f_age f_conf f_cost f_new f_intl f_hour f_risk
        = Inr t0 \<longrightarrow>
      TransactionRequest_validate (Given PosInf) f_age f_conf f_cost f_new f_intl f_hour f_risk
        = Inr (t0\<lparr>amount := PosInf\<rparr>)
      \<and> (\<exists>rest. fst (predict_fraud (Some m) (Some s) (t0\<lparr>amount := PosInf\<rparr>))
            = Transform (PosInf # tl (features t0)) # rest))
   \<and> (TransactionRequest_validate f_amount f_age f_conf (Given (Finite c)) f_new f_intl f_hour
        f_risk = Inr t1 \<longrightarrow>
      TransactionRequest_validate f_amount f_age f_conf (Given PosInf) f_new f_intl f_hour f_risk
        = Inr (t1\<lparr>totalCost := Some PosInf\<rparr>)
      \<and> features (t1\<lparr>totalCost := Some PosInf\<rparr>) ! 3 = PosInf)
   \<and> (transform s (features t) = Inr fs \<and> predict m fs = Inr p \<and> score_samples m fs = Inr raw
       \<and> decision_function m fs = Inr d \<and> riskFlagCount t = Some n \<longrightarrow>
      (\<exists>tr resp. predict_fraud (Some m) (Some s) t = (tr, Inr resp)
         \<and> (anomalyScore resp = NaN \<longleftrightarrow> d = NaN)
         \<and> (model_confidence resp = NaN \<longleftrightarrow> d = NaN)
         \<and> (d = NaN \<longrightarrow> explanation resp
               = ''Normal transaction (score: nan). No significant anomalies detected.'')))"
proof -
  have A: "f_amount = Given NaN \<or> f_amount = Given NegInf
      \<or> f_conf = Given NaN \<or> f_conf = Given PosInf \<or> f_conf = Given NegInf
      \<or> f_cost = Given NaN \<or> f_cost = Given NegInf \<longrightarrow>
      (\<exists>errs. TransactionRequest_validate f_amount f_age f_conf f_cost f_new f_intl f_hour f_risk
         = Inl errs)"
    using validation_rejects_non_finite by blast
  have B: "TransactionRequest_validate (Given (Finite a)) f_age f_conf f_cost f_new f_intl f_hour
        f_risk = Inr t0 \<longrightarrow>
      TransactionRequest_validate (Given PosInf) f_age f_conf f_cost f_new f_intl f_hour f_risk
        = Inr (t0\<lparr>amount := PosInf\<rparr>)
      \<and> (\<exists>rest. fst (predict_fraud (Some m) (Some s) (t0\<lparr>amount := PosInf\<rparr>))
            = Transform (PosInf # tl (features t0)) # rest)"
  proof
    assume "TransactionRequest_validate (Given (Finite a)) f_age f_conf f_cost f_new f_intl f_hour
        f_risk = Inr t0"
    then have v: "TransactionRequest_validate (Given PosInf) f_age f_conf f_cost f_new f_intl
        f_hour f_risk = Inr (t0\<lparr>amount := PosInf\<rparr>)"
      by (rule validation_accepts_infinite_amount)
    have "\<exists>rest. fst (predict_fraud (Some m) (Some s) (t0\<lparr>amount := PosInf\<rparr>))
        = Transform (PosInf # tl (features t0)) # rest"
      using first_call_is_transform [of m s "t0\<lparr>amount := PosInf\<rparr>"]
      by (simp add: features_amount_update)
    with v show "TransactionRequest_validate (Given PosInf) f_age f_conf f_cost f_new f_intl
        f_hour f_risk = Inr (t0\<lparr>amount := PosInf\<rparr>)
      \<and> (\<exists>rest. fst (predict_fraud (Some m) (Some s) (t0\<lparr>amount := PosInf\<rparr>))
            = Transform (PosInf # tl (features t0)) # rest)"
      by blast
  qed
  have B2: "TransactionRequest_validate f_amount f_age f_conf (Given (Finite c)) f_new f_intl
        f_hour f_risk = Inr t1 \<longrightarrow>
      TransactionRequest_validate f_amount f_age f_conf (Given PosInf) f_new f_intl f_hour f_risk
        = Inr (t1\<lparr>totalCost := Some PosInf\<rparr>)
      \<and> features (t1\<lparr>totalCost := Some PosInf\<rparr>) ! 3 = PosInf"
    using validation_accepts_infinite_totalCost features_totalCost_PosInf by blast
  have C: "transform s (features t) = Inr fs \<and> predict m fs = Inr p \<and> score_samples m fs = Inr raw
       \<and> decision_function m fs = Inr d \<and> riskFlagCount t = Some n \<longrightarrow>
      (\<exists>tr resp. predict_fraud (Some m) (Some s) t = (tr, Inr resp)
         \<and> (anomalyScore resp = NaN \<longleftrightarrow> d = NaN)
         \<and> (model_confidence resp = NaN \<longleftrightarrow> d = NaN)
         \<and> (d = NaN \<longrightarrow> explanation resp
               = ''Normal transaction (score: nan). No significant anomalies detected.''))"
  proof (intro impI, elim conjE)
    assume h: "transform s (features t) = Inr fs" "predict m fs = Inr p"
      "score_samples m fs = Inr raw" "decision_function m fs = Inr d"
      and r: "riskFlagCount t = Some n"
    obtain ex where ex: "generate_explanation t (normalized_score d)
        (fl_greater (normalized_score d) (Finite 0.5)) = Inr ex"
      using generate_explanation_total [OF r] by blast
    have nan: "d = NaN \<longrightarrow> ex
        = ''Normal transaction (score: nan). No significant anomalies detected.''"
    proof
      assume "d = NaN"
      then have "generate_explanation t NaN False = Inr ex"
        using ex by (simp add: normalized_score_def fl_greater_def)
      then show "ex = ''Normal transaction (score: nan). No significant anomalies detected.''"
        using NaN_explanation [OF r] by simp
    qed
    show "\<exists>tr resp. predict_fraud (Some m) (Some s) t = (tr, Inr resp)
         \<and> (anomalyScore resp = NaN \<longleftrightarrow> d = NaN)
         \<and> (model_confidence resp = NaN \<longleftrightarrow> d = NaN)
         \<and> (d = NaN \<longrightarrow> explanation resp
               = ''Normal transaction (score: nan). No significant anomalies detected.'')"
      using predict_fraud_success [OF h ex] nan
      by (simp add: py_round_NaN_iff normalized_score_NaN_iff score_confidence_NaN_iff)
  qed
  show ?thesis by (intro conjI) (rule A B B2 C)+
qed



theorem non_finite_values_amended_witness:
  "(\<exists>errs. TransactionRequest_validate (Given NaN) Absent Absent Absent Absent Absent Absent
       Absent = Inl errs)
   \<and> TransactionRequest_validate (Given (Finite 100)) Absent Absent Absent Absent Absent Absent
        Absent = Inr (amount_only (Finite 100))
   \<and> TransactionRequest_validate (Given PosInf) Absent Absent Absent Absent Absent Absent Absent
        = Inr ((amount_only (Finite 100))\<lparr>amount := PosInf\<rparr>)
   \<and> TransactionRequest_validate (Given (Finite 100)) Absent Absent (Given (Finite 5)) Absent
        Absent Absent Absent = Inr ((amount_only (Finite 100))\<lparr>totalCost := Some (Finite 5)\<rparr>)
   \<and> TransactionRequest_validate (Given (Finite 100)) Absent Absent (Given PosInf) Absent
        Absent Absent Absent
        = Inr ((amount_only (Finite 100))\<lparr>totalCost := Some (Finite 5), totalCost := Some PosInf\<rparr>)
   \<and> (\<exists>tr resp. predict_fraud (Some (constant_model 1 (Finite 0) NaN)) (Some identity_scaler)
          (amount_only (Finite 100)) = (tr, Inr resp)
        \<and> anomalyScore resp = NaN \<and> model_confidence resp = NaN
        \<and> explanation resp
            = ''Normal transaction (score: nan). No significant anomalies detected.'')"
proof -
  note rej = non_finite_values_amended
    [where f_amount = "Given NaN" and f_age = Absent and f_conf = Absent and f_cost = Absent
       and f_new = Absent and f_intl = Absent and f_hour = Absent and f_risk = Absent]
  have a: "\<exists>errs. TransactionRequest_validate (Given NaN) Absent Absent Absent Absent Absent
       Absent Absent = Inl errs"
    using rej by blast
  have v5: "TransactionRequest_validate (Given (Finite 100)) Absent Absent (Given (Finite 5))
       Absent Absent Absent Absent
      = Inr ((amount_only (Finite 100))\<lparr>totalCost := Some (Finite 5)\<rparr>)"
    by (simp add: TransactionRequest_validate_def Let_def amount_only_def fl_ge_def fl_le_def
        ge0_ok_def le1_ok_def int_ge0_ok_def constraint_errors_def)
  note acc = non_finite_values_amended
    [where f_amount = "Given (Finite 100)" and f_age = Absent and f_conf = Absent
       and f_cost = Absent and f_new = Absent and f_intl = Absent and f_hour = Absent
       and f_risk = Absent and a = 100 and ?t0.0 = "amount_only (Finite 100)"
       and m = "constant_model 1 (Finite 0) NaN" and s = identity_scaler
       and t = "amount_only (Finite 100)" and fs = "features (amount_only (Finite 100))"
       and p = 1 and raw = "Finite 0" and d = NaN and n = 0 and c = 5
       and ?t1.0 = "(amount_only (Finite 100))\<lparr>totalCost := Some (Finite 5)\<rparr>"]
  have b: "TransactionRequest_validate (Given PosInf) Absent Absent Absent Absent Absent Absent
        Absent = Inr ((amount_only (Finite 100))\<lparr>amount := PosInf\<rparr>)"
    using acc validate_amount_only by blast
  have c: "TransactionRequest_validate (Given (Finite 100)) Absent Absent (Given PosInf) Absent
        Absent Absent Absent
        = Inr ((amount_only (Finite 100))\<lparr>totalCost := Some (Finite 5), totalCost := Some PosInf\<rparr>)"
    using acc v5 by blast
  have h: "transform identity_scaler (features (amount_only (Finite 100)))
        = Inr (features (amount_only (Finite 100)))
      \<and> predict (constant_model 1 (Finite 0) NaN) (features (amount_only (Finite 100))) = Inr 1
      \<and> score_samples (constant_model 1 (Finite 0) NaN) (features (amount_only (Finite 100)))
          = Inr (Finite 0)
      \<and> decision_function (constant_model 1 (Finite 0) NaN) (features (amount_only (Finite 100)))
          = Inr NaN
      \<and> riskFlagCount (amount_only (Finite 100)) = Some 0"
    by (simp add: identity_scaler_def constant_model_def amount_only_def)
  have d: "\<exists>tr resp. predict_fraud (Some (constant_model 1 (Finite 0) NaN)) (Some identity_scaler)
          (amount_only (Finite 100)) = (tr, Inr resp)
        \<and> anomalyScore resp = NaN \<and> model_confidence resp = NaN
        \<and> explanation resp
            = ''Normal transaction (score: nan). No significant anomalies detected.''"
    using acc h by blast
  show ?thesis by (intro conjI) (rule a validate_amount_only b v5 c d)+
qed

end
